theory Spec2Isabelle
  imports Complex_Main
begin

section \<open>Go values shared by the catalog and the RRD connector\<close>

text \<open>
  A Go \<open>error\<close> value is either \<open>nil\<close> or carries a message; the non-nil ones are
  the values of \<open>error\<close>, and \<open>error option\<close> is a Go \<open>error\<close> result. A run-time
  panic (nil dereference, index out of range, \<open>regexp.MustCompile\<close> on a bad
  pattern, closing a closed channel) is not an error value: it unwinds the call. A
  function that can panic returns an \<open>outcome\<close>.
\<close>

datatype error = Error (message: string)

datatype 'a outcome = Panic string | Return 'a

text \<open>The apostrophe of the messages written \<open>`%s'\<close> in the source.\<close>

definition apostrophe :: string where
  "apostrophe = [CHR 0x27]"

text \<open>\<open>strconv.Itoa\<close> and the verb \<open>%d\<close>: decimal digits, a minus sign when negative.\<close>

fun Itoa_nat :: "nat \<Rightarrow> string" where
  "Itoa_nat n =
     (if n < 10 then [char_of (48 + n)]
      else Itoa_nat (n div 10) @ [char_of (48 + n mod 10)])"

declare Itoa_nat.simps [simp del]

definition Itoa :: "int \<Rightarrow> string" where
  "Itoa i = (if i < 0 then ''-'' @ Itoa_nat (nat (- i)) else Itoa_nat (nat i))"

section \<open>The catalog (package backend)\<close>

text \<open>
  The structs \<open>Origin\<close>, \<open>Source\<close> and \<open>Metric\<close> are declared outside the two source
  files; their fields are the ones the source reads and writes. A Go map from names
  to pointers is a partial map to records: every pointer the source stores is a
  freshly allocated struct, never nil. The non-owning back pointers
  (\<open>Origin.catalog\<close>, \<open>Metric.source\<close>) are kept as the one field that is read
  through them: \<open>Metric.source.Name\<close> is \<open>source_Name\<close>.
\<close>

record Metric =
  Metric_Name :: string
  OriginalName :: string
  source_Name :: string

record Source =
  Source_Name :: string
  Metrics :: "string \<rightharpoonup> Metric"

record RRDMetric =
  Dataset :: string
  FilePath :: string

record RRDConnectorHandler =
  Path :: string
  Pattern :: string
  metrics :: "string \<rightharpoonup> (string \<rightharpoonup> RRDMetric)"

record Origin =
  Origin_Name :: string
  Sources :: "string \<rightharpoonup> Source"
  Connector :: "RRDConnectorHandler option"

text \<open>\<open>Updated\<close> is a \<open>time.Time\<close>, here an instant counted in nanoseconds.\<close>

record Catalog =
  Origins :: "string \<rightharpoonup> Origin"
  Updated :: int
  debugLevel :: int

definition NewCatalog :: "int \<Rightarrow> Catalog" where
  "NewCatalog dl = \<lparr>Origins = Map.empty, Updated = 0, debugLevel = dl\<rparr>"

text \<open>
  A registered constructor receives the new origin and the raw configuration; it
  may set fields of the origin and returns an error or nil. The registry
  \<open>BackendHandlers\<close> is a global of the package, passed here as an argument.
\<close>

type_synonym handler_constructor =
  "Origin \<Rightarrow> (string \<rightharpoonup> string) \<Rightarrow> error option \<times> Origin"

definition AddOrigin ::
    "(string \<rightharpoonup> handler_constructor) \<Rightarrow> Catalog \<Rightarrow> string \<Rightarrow> (string \<rightharpoonup> string)
      \<Rightarrow> Catalog \<times> (error + Origin)" where
  "AddOrigin BackendHandlers catalog name config =
     (let origin = \<lparr>Origin_Name = name, Sources = Map.empty, Connector = None\<rparr> in
      case config ''type'' of
        None \<Rightarrow> (catalog, Inl (Error ''missing backend type''))
      | Some ty \<Rightarrow>
          (case BackendHandlers ty of
             None \<Rightarrow>
               (catalog, Inl (Error (''unknown `'' @ ty @ apostrophe @ '' backend type'')))
           | Some ctor \<Rightarrow>
               (case ctor origin config of
                  (Some err, _) \<Rightarrow> (catalog, Inl err)
                | (None, origin') \<Rightarrow>
                    (catalog\<lparr>Origins := (Origins catalog)(name \<mapsto> origin')\<rparr>,
                     Inr origin'))))"

text \<open>The constructor the RRD connector registers under \<open>rrd\<close> in its \<open>init\<close>.\<close>

definition rrd_constructor :: handler_constructor where
  "rrd_constructor origin config =
     (case config ''path'' of
        None \<Rightarrow>
          (Some (Error (''missing `path'' @ apostrophe @ '' mandatory connector setting'')),
           origin)
      | Some path \<Rightarrow>
          (case config ''pattern'' of
             None \<Rightarrow>
               (Some (Error (''missing `pattern'' @ apostrophe
                   @ '' mandatory connector setting'')), origin)
           | Some pattern \<Rightarrow>
               (None, origin\<lparr>Connector :=
                  Some \<lparr>Path = path, Pattern = pattern, metrics = Map.empty\<rparr>\<rparr>)))"

definition MetricExists :: "Catalog \<Rightarrow> string \<Rightarrow> string \<Rightarrow> string \<Rightarrow> bool" where
  "MetricExists catalog origin source name =
     (case Origins catalog origin of
        None \<Rightarrow> False
      | Some og \<Rightarrow>
          (case Sources og source of
             None \<Rightarrow> False
           | Some sr \<Rightarrow>
               (case Metrics sr name of None \<Rightarrow> False | Some _ \<Rightarrow> True)))"

text \<open>
  \<open>GetMetric\<close> dereferences \<open>catalog.Origins[origin]\<close> and its \<open>Sources[source]\<close>
  after the existence test; a missing key would give a nil pointer there, and the
  dereference would panic. The result is the metric pointer, \<open>None\<close> for nil.
\<close>

definition GetMetric ::
    "Catalog \<Rightarrow> string \<Rightarrow> string \<Rightarrow> string \<Rightarrow> Metric option outcome" where
  "GetMetric catalog origin source name =
     (if \<not> MetricExists catalog origin source name then Return None
      else
        (case Origins catalog origin of
           None \<Rightarrow> Panic ''nil pointer dereference''
         | Some og \<Rightarrow>
             (case Sources og source of
                None \<Rightarrow> Panic ''nil pointer dereference''
              | Some sr \<Rightarrow> Return (Metrics sr name))))"

text \<open>
  \<open>Catalog.Update\<close> ranges over the map of origins; Go fixes no order for that, so
  the order of the visit is the argument \<open>order\<close>, a list of the keys. The method
  \<open>Origin.Update\<close> is outside the source files and is the argument
  \<open>origin_Update\<close>: it returns its error and the origin as it leaves it.
  \<open>time.Now()\<close> is the argument \<open>now\<close>. The lines given to \<open>log.Println\<close> are
  returned in order. The loop state is the map, the variable \<open>err\<close>, the variable
  \<open>success\<close> and the log.
\<close>

fun Update_range ::
    "(Origin \<Rightarrow> error option \<times> Origin) \<Rightarrow> string list \<Rightarrow> (string \<rightharpoonup> Origin)
      \<Rightarrow> error option \<Rightarrow> bool \<Rightarrow> string list
      \<Rightarrow> (string \<rightharpoonup> Origin) \<times> error option \<times> bool \<times> string list" where
  "Update_range origin_Update [] os err success lg = (os, err, success, lg)"
| "Update_range origin_Update (k # ks) os err success lg =
     (case os k of
        None \<Rightarrow> Update_range origin_Update ks os err success lg
      | Some origin \<Rightarrow>
          (case origin_Update origin of
             (None, origin') \<Rightarrow>
               Update_range origin_Update ks (os(k \<mapsto> origin')) None success lg
           | (Some e, origin') \<Rightarrow>
               Update_range origin_Update ks (os(k \<mapsto> origin')) (Some e) False
                 (lg @ [''ERROR: '' @ message e])))"

definition Catalog_Update ::
    "(Origin \<Rightarrow> error option \<times> Origin) \<Rightarrow> int \<Rightarrow> string list \<Rightarrow> Catalog
      \<Rightarrow> Catalog \<times> error option \<times> string list" where
  "Catalog_Update origin_Update now order catalog =
     (case Update_range origin_Update order (Origins catalog) None True
             [''INFO: catalog update started''] of
        (os, err, success, lg) \<Rightarrow>
          if \<not> success then
            (catalog\<lparr>Origins := os\<rparr>, err, lg @ [''INFO: catalog update failed''])
          else
            (catalog\<lparr>Origins := os, Updated := now\<rparr>, None,
             lg @ [''INFO: catalog update completed'']))"

section \<open>Numbers and strings of the RRD connector (package connector)\<close>

text \<open>
  A finite \<open>float64\<close> is a rational number or the negative zero, which compares
  equal to zero and is printed with a minus sign. The operations the connector
  applies to such a number are exact on its value: comparison with zero,
  truncation, subtraction of the integer part (the difference of the negative zero
  and zero is the negative zero, still equal to zero), and the decimal rendering
  of \<open>fmt\<close>, which rounds the exact value to the requested number of decimals,
  ties to even, and writes the minus sign when the sign bit is set. NaN and the
  infinities are not values of this type.
\<close>

datatype float64 = NegZero | F64 rat

fun float_val :: "float64 \<Rightarrow> rat" where
  "float_val NegZero = 0"
| "float_val (F64 x) = x"

fun sign_bit :: "float64 \<Rightarrow> bool" where
  "sign_bit NegZero = True"
| "sign_bit (F64 x) = (x < 0)"

definition round_half_even :: "rat \<Rightarrow> int" where
  "round_half_even x =
     (let n = \<lfloor>x\<rfloor>; d = x - of_int n in
      if d < 1 / 2 then n
      else if 1 / 2 < d then n + 1
      else if even n then n else n + 1)"

primrec digits_fixed :: "nat \<Rightarrow> nat \<Rightarrow> string" where
  "digits_fixed 0 n = []"
| "digits_fixed (Suc d) n = digits_fixed d (n div 10) @ [char_of (48 + n mod 10)]"

text \<open>
  The verbs \<open>%f\<close> (\<open>prec = 6\<close>), \<open>%.2f\<close> and \<open>%.0f\<close>: sign, integer digits and,
  unless \<open>prec = 0\<close>, a point and exactly \<open>prec\<close> digits.
\<close>

definition fmt_f :: "nat \<Rightarrow> float64 \<Rightarrow> string" where
  "fmt_f prec x =
     (let n = nat (round_half_even (\<bar>float_val x\<bar> * 10 ^ prec)) in
      (if sign_bit x then ''-'' else [])
      @ Itoa_nat (n div 10 ^ prec)
      @ (if prec = 0 then [] else ''.'' @ digits_fixed prec (n mod 10 ^ prec)))"

text \<open>
  The conversion \<open>int(x)\<close> of a \<open>float64\<close> of value \<open>x\<close> to the 64-bit \<open>int\<close>:
  truncation toward zero. For a value whose truncation does not fit, Go leaves the result to the
  implementation; the value taken here is the one of the amd64 conversion
  instruction, the least \<open>int64\<close>.
\<close>

definition int_of_float64 :: "rat \<Rightarrow> int" where
  "int_of_float64 x =
     (let t = (if x < 0 then - \<lfloor>- x\<rfloor> else \<lfloor>x\<rfloor>) in
      if - (2 ^ 63) \<le> t \<and> t < 2 ^ 63 then t else - (2 ^ 63))"

text \<open>\<open>strings.Join\<close>.\<close>

fun Join :: "string list \<Rightarrow> string \<Rightarrow> string" where
  "Join [] sep = []"
| "Join [a] sep = a"
| "Join (a # b # rest) sep = a @ sep @ Join (b # rest) sep"

text \<open>
  \<open>strings.SplitN\<close> with a separator of one character and a count \<open>n \<ge> 0\<close>: at most
  \<open>n\<close> pieces, the last one being the unsplit rest.
\<close>

fun SplitN :: "string \<Rightarrow> char \<Rightarrow> nat \<Rightarrow> string list" where
  "SplitN s sep 0 = []"
| "SplitN s sep (Suc 0) = [s]"
| "SplitN s sep (Suc (Suc n)) =
     (if sep \<in> set s
      then takeWhile (\<lambda>c. c \<noteq> sep) s
           # SplitN (tl (dropWhile (\<lambda>c. c \<noteq> sep) s)) sep (Suc n)
      else [s])"

section \<open>The query engine of the RRD connector\<close>

text \<open>
  A scale is written into an expression only after the test \<open>Scale != 0\<close>, which
  the negative zero fails as zero does: a scale is its rational value.

  The operator constants are declared outside the source files; the type of
  \<open>GroupQuery.Type\<close> is an integer type (it is printed with \<open>%d\<close>), so a value
  other than the three named ones is possible: \<open>OperGroupTypeOther\<close> with its number,
  which is none of the three constants.
\<close>

datatype OperGroupType =
  OperGroupTypeNone | OperGroupTypeAvg | OperGroupTypeSum | OperGroupTypeOther int

record Serie =
  Serie_Name :: string
  Serie_Metric :: "Metric option"
  Serie_Scale :: rat

record GroupQuery =
  Query_Name :: string
  Query_Type :: OperGroupType
  Series :: "Serie list"
  Query_Scale :: rat

text \<open>A \<open>types.PlotValue\<close> is a \<open>float64\<close>, which may be NaN or infinite.\<close>

datatype PlotValue = NaN | PosInf | NegInf | Finite rat

record PlotResult =
  Plots :: "PlotValue list"
  Info :: "string \<rightharpoonup> PlotValue"

text \<open>
  The grapher and the exporter of the rrd binding collect the calls made on them;
  running them is the storage engine's work. A grapher or exporter is the list of
  the calls it has received, in order.
\<close>

datatype rrd_call =
  Def string string string string
| CDef string string
| VDef string string
| Print string string
| XportDef string string

record XportResult =
  Legends :: "string list"
  RowCnt :: nat
  ValueAt :: "nat \<Rightarrow> nat \<Rightarrow> PlotValue"

text \<open>
  The storage engine and \<open>strconv.ParseFloat\<close>, as the connector calls them:
  \<open>Xport\<close> runs an exporter over a time range with a step, \<open>Graph\<close> runs a grapher
  and returns the \<open>Print\<close> lines of its \<open>GraphInfo\<close>, \<open>ParseFloat\<close> returns
  \<open>None\<close> when it reports an error. Times are instants in nanoseconds.
\<close>

record rrd_engine =
  Xport :: "rrd_call list \<Rightarrow> int \<Rightarrow> int \<Rightarrow> int \<Rightarrow> error + XportResult"
  Graph :: "rrd_call list \<Rightarrow> int \<Rightarrow> int \<Rightarrow> error + string list"
  ParseFloat :: "string \<Rightarrow> PlotValue option"

definition Minute :: int where
  "Minute = 60 * 1000000000"

text \<open>The body of the loop over the percentiles in \<open>rrdSetGraph\<close>.\<close>

definition rrdSetGraph_percentile ::
    "string \<Rightarrow> string \<Rightarrow> nat \<Rightarrow> float64 \<Rightarrow> rrd_call list" where
  "rrdSetGraph_percentile serieName itemName index percentile =
     [CDef (serieName @ ''-cdef'' @ Itoa_nat index)
        (serieName @ '',UN,0,'' @ serieName @ '',IF''),
      VDef (serieName @ ''-vdef'' @ Itoa_nat index)
        (serieName @ ''-cdef'' @ Itoa_nat index @ '','' @ fmt_f 6 percentile @ '',PERCENT''),
      (if float_val percentile - of_int (int_of_float64 (float_val percentile)) \<noteq> 0
       then Print (serieName @ ''-vdef'' @ Itoa_nat index)
              (itemName @ '','' @ fmt_f 2 percentile @ ''th,%lf'')
       else Print (serieName @ ''-vdef'' @ Itoa_nat index)
              (itemName @ '','' @ fmt_f 0 percentile @ ''th,%lf''))]"

fun rrdSetGraph_range :: "string \<Rightarrow> string \<Rightarrow> nat \<Rightarrow> float64 list \<Rightarrow> rrd_call list" where
  "rrdSetGraph_range serieName itemName index [] = []"
| "rrdSetGraph_range serieName itemName index (percentile # rest) =
     rrdSetGraph_percentile serieName itemName index percentile
     @ rrdSetGraph_range serieName itemName (Suc index) rest"

definition rrdSetGraph ::
    "rrd_call list \<Rightarrow> string \<Rightarrow> string \<Rightarrow> float64 list \<Rightarrow> rrd_call list" where
  "rrdSetGraph graph serieName itemName percentiles =
     graph
     @ [VDef (serieName @ ''-min'') (serieName @ '',MINIMUM''),
        Print (serieName @ ''-min'') (itemName @ '',min,%lf''),
        VDef (serieName @ ''-avg'') (serieName @ '',AVERAGE''),
        Print (serieName @ ''-avg'') (itemName @ '',avg,%lf''),
        VDef (serieName @ ''-max'') (serieName @ '',MAXIMUM''),
        Print (serieName @ ''-max'') (itemName @ '',max,%lf''),
        VDef (serieName @ ''-last'') (serieName @ '',LAST''),
        Print (serieName @ ''-last'') (itemName @ '',last,%lf'')]
     @ rrdSetGraph_range serieName itemName 0 percentiles"

text \<open>
  \<open>rrdParseInfo\<close>: \<open>chunks[2]\<close> is read whatever the length of \<open>chunks\<close>. Every
  \<open>PlotResult\<close> the connector creates has a non-nil \<open>Info\<close> map.
\<close>

fun rrdParseInfo ::
    "(string \<Rightarrow> PlotValue option) \<Rightarrow> string list \<Rightarrow> (string \<rightharpoonup> PlotResult)
      \<Rightarrow> (string \<rightharpoonup> PlotResult) outcome" where
  "rrdParseInfo parseFloat [] data = Return data"
| "rrdParseInfo parseFloat (v # rest) data =
     (let chunks = SplitN v (CHR '','') 3 in
      if length chunks \<le> 2 then Panic ''index out of range''
      else
        let chunkFloat = (case parseFloat (chunks ! 2) of None \<Rightarrow> NaN | Some f \<Rightarrow> f);
            entry = (case data (chunks ! 0) of
                       None \<Rightarrow> \<lparr>Plots = [], Info = Map.empty\<rparr>
                     | Some r \<Rightarrow> r)
        in rrdParseInfo parseFloat rest
             (data(chunks ! 0 \<mapsto> entry\<lparr>Info := (Info entry)(chunks ! 1 \<mapsto> chunkFloat)\<rparr>)))"

text \<open>
  The request plan \<open>rrdGetData\<close> builds before it calls the storage engine: the
  grapher, the exporter (left empty when \<open>infoOnly\<close>, where the source has no
  exporter) and the map \<open>series\<close> from temporary to output names.
\<close>

record plan =
  plan_graph :: "rrd_call list"
  plan_xport :: "rrd_call list"
  plan_series :: "string \<rightharpoonup> string"

text \<open>
  \<open>handler.metrics[serie.Metric.source.Name][serie.Metric.OriginalName]\<close>: a
  pointer, nil when either key is missing; reading a field of it then panics.
\<close>

definition handler_metric :: "RRDConnectorHandler \<Rightarrow> Metric \<Rightarrow> RRDMetric option" where
  "handler_metric handler m =
     (case metrics handler (source_Name m) of
        None \<Rightarrow> None
      | Some table \<Rightarrow> table (OriginalName m))"

text \<open>The loop of the branch \<open>OperGroupTypeNone\<close>, with its counter \<open>count\<close>.\<close>

fun plan_none ::
    "RRDConnectorHandler \<Rightarrow> GroupQuery \<Rightarrow> float64 list \<Rightarrow> bool \<Rightarrow> Serie list \<Rightarrow> nat
      \<Rightarrow> plan \<Rightarrow> plan outcome" where
  "plan_none handler query percentiles infoOnly [] count p = Return p"
| "plan_none handler query percentiles infoOnly (serie # rest) count p =
     (case Serie_Metric serie of
        None \<Rightarrow> plan_none handler query percentiles infoOnly rest count p
      | Some m \<Rightarrow>
          (case handler_metric handler m of
             None \<Rightarrow> Panic ''nil pointer dereference''
           | Some rm \<Rightarrow>
               (let serieTemp = ''serie'' @ Itoa_nat count;
                    serieName = Serie_Name serie;
                    defs =
                      [Def (serieTemp @ ''-orig0'') (FilePath rm) (Dataset rm) ''AVERAGE'',
                       (if Serie_Scale serie \<noteq> 0
                        then CDef (serieTemp @ ''-orig1'')
                               (serieTemp @ ''-orig0,'' @ fmt_f 6 (F64 (Serie_Scale serie)) @ '',*'')
                        else CDef (serieTemp @ ''-orig1'') (serieTemp @ ''-orig0'')),
                       (if Query_Scale query \<noteq> 0
                        then CDef serieTemp
                               (serieTemp @ ''-orig1,'' @ fmt_f 6 (F64 (Query_Scale query)) @ '',*'')
                        else CDef serieTemp (serieTemp @ ''-orig1''))]
                in plan_none handler query percentiles infoOnly rest (count + 1)
                     \<lparr>plan_graph =
                        rrdSetGraph (plan_graph p @ defs) serieTemp serieName percentiles,
                      plan_xport =
                        (if \<not> infoOnly
                         then plan_xport p @ defs @ [XportDef serieTemp serieTemp]
                         else plan_xport p),
                      plan_series = (plan_series p)(serieTemp \<mapsto> serieName)\<rparr>)))"

text \<open>
  The loop of the branch \<open>OperGroupTypeAvg, OperGroupTypeSum\<close>; \<open>index\<close> is the
  position of the serie in \<open>query.Series\<close>, and \<open>stack\<close> the expression so far.
\<close>

fun plan_group_range ::
    "RRDConnectorHandler \<Rightarrow> bool \<Rightarrow> string \<Rightarrow> Serie list \<Rightarrow> nat \<Rightarrow> plan \<Rightarrow> string list
      \<Rightarrow> (plan \<times> string list) outcome" where
  "plan_group_range handler infoOnly serieName [] index p stack = Return (p, stack)"
| "plan_group_range handler infoOnly serieName (serie # rest) index p stack =
     (case Serie_Metric serie of
        None \<Rightarrow> plan_group_range handler infoOnly serieName rest (Suc index) p stack
      | Some m \<Rightarrow>
          (case handler_metric handler m of
             None \<Rightarrow> Panic ''nil pointer dereference''
           | Some rm \<Rightarrow>
               (let serieTemp = serieName @ ''-tmp'' @ Itoa_nat index;
                    d = Def serieTemp (FilePath rm) (Dataset rm) ''AVERAGE''
                in plan_group_range handler infoOnly serieName rest (Suc index)
                     (p\<lparr>plan_graph := plan_graph p @ [d],
                        plan_xport :=
                          (if \<not> infoOnly then plan_xport p @ [d] else plan_xport p)\<rparr>)
                     (if length stack = 0 then stack @ [serieTemp]
                      else stack @ [serieTemp, ''+'']))))"

definition plan_group ::
    "RRDConnectorHandler \<Rightarrow> GroupQuery \<Rightarrow> float64 list \<Rightarrow> bool \<Rightarrow> plan outcome" where
  "plan_group handler query percentiles infoOnly =
     (let serieName = ''serie'' @ Itoa_nat 0 in
      case plan_group_range handler infoOnly serieName (Series query) 0
             \<lparr>plan_graph = [], plan_xport = [], plan_series = Map.empty\<rparr> [] of
        Panic msg \<Rightarrow> Panic msg
      | Return (p, stack0) \<Rightarrow>
          (let stack =
                 (if Query_Type query = OperGroupTypeAvg
                  then stack0 @ [Itoa (int (length (Series query))), ''/'']
                  else stack0);
               defs =
                 [CDef (serieName @ ''-orig'') (Join stack '',''),
                  (if Query_Scale query \<noteq> 0
                   then CDef serieName
                          (serieName @ ''-orig,'' @ fmt_f 6 (F64 (Query_Scale query)) @ '',*'')
                   else CDef serieName (serieName @ ''-orig''))]
           in Return
                \<lparr>plan_graph =
                   rrdSetGraph (plan_graph p @ defs) serieName (Query_Name query) percentiles,
                 plan_xport =
                   (if \<not> infoOnly
                    then plan_xport p @ defs @ [XportDef serieName serieName]
                    else plan_xport p),
                 plan_series = (plan_series p)(serieName \<mapsto> Query_Name query)\<rparr>))"

text \<open>The \<open>switch query.Type\<close> of \<open>rrdGetData\<close>.\<close>

definition rrdGetData_plan ::
    "RRDConnectorHandler \<Rightarrow> GroupQuery \<Rightarrow> float64 list \<Rightarrow> bool \<Rightarrow> (error + plan) outcome" where
  "rrdGetData_plan handler query percentiles infoOnly =
     (case Query_Type query of
        OperGroupTypeNone \<Rightarrow>
          (case plan_none handler query percentiles infoOnly (Series query) 0
                  \<lparr>plan_graph = [], plan_xport = [], plan_series = Map.empty\<rparr> of
             Panic msg \<Rightarrow> Panic msg
           | Return p \<Rightarrow> Return (Inr p))
      | OperGroupTypeOther n \<Rightarrow>
          Return (Inl (Error (''unknown `'' @ Itoa n @ apostrophe @ '' operator type'')))
      | _ \<Rightarrow>
          (case plan_group handler query percentiles infoOnly of
             Panic msg \<Rightarrow> Panic msg
           | Return p \<Rightarrow> Return (Inr p)))"

text \<open>
  The loop over \<open>data.Legends\<close>: a fresh \<open>PlotResult\<close> under the output name of
  each legend (the empty string when \<open>series\<close> has no such key), filled with the
  \<open>RowCnt\<close> values of its column.
\<close>

fun collect_plots ::
    "(string \<rightharpoonup> string) \<Rightarrow> XportResult \<Rightarrow> nat \<Rightarrow> string list \<Rightarrow> (string \<rightharpoonup> PlotResult)
      \<Rightarrow> (string \<rightharpoonup> PlotResult)" where
  "collect_plots series data index [] result = result"
| "collect_plots series data index (serieName # rest) result =
     collect_plots series data (Suc index) rest
       (result((case series serieName of None \<Rightarrow> [] | Some name \<Rightarrow> name) \<mapsto>
          \<lparr>Plots = map (ValueAt data index) [0..<RowCnt data], Info = Map.empty\<rparr>))"

text \<open>
  \<open>rrdGetData\<close> receives the query by pointer and may assign to its \<open>Type\<close>: the
  query as the caller finds it afterwards is the first component of the result,
  whatever the second one is.
\<close>

definition rrdGetData ::
    "rrd_engine \<Rightarrow> RRDConnectorHandler \<Rightarrow> GroupQuery \<Rightarrow> int \<Rightarrow> int \<Rightarrow> int \<Rightarrow> float64 list \<Rightarrow> bool
      \<Rightarrow> GroupQuery \<times> (error + (string \<rightharpoonup> PlotResult)) outcome" where
  "rrdGetData engine handler query startTime endTime step percentiles infoOnly =
     (if length (Series query) = 0 then (query, Return (Inl (Error ''group has no series'')))
      else
        let query' =
              (if Query_Type query \<noteq> OperGroupTypeNone \<and> length (Series query) = 1
               then query\<lparr>Query_Type := OperGroupTypeNone\<rparr> else query)
        in (query',
            case rrdGetData_plan handler query' percentiles infoOnly of
              Panic msg \<Rightarrow> Panic msg
            | Return (Inl err) \<Rightarrow> Return (Inl err)
            | Return (Inr p) \<Rightarrow>
                (case (if \<not> infoOnly
                       then (case Xport engine (plan_xport p) startTime endTime step of
                               Inl err \<Rightarrow> Inl err
                             | Inr data \<Rightarrow>
                                 Inr (collect_plots (plan_series p) data 0 (Legends data)
                                        Map.empty))
                       else Inr Map.empty) of
                   Inl err \<Rightarrow> Return (Inl err)
                 | Inr result \<Rightarrow>
                     (case Graph engine (plan_graph p) startTime endTime of
                        Inl err \<Rightarrow> Return (Inl err)
                      | Inr graphInfo \<Rightarrow>
                          (case rrdParseInfo (ParseFloat engine) graphInfo result of
                             Panic msg \<Rightarrow> Panic msg
                           | Return r \<Rightarrow> Return (Inr r))))))"

definition GetPlots ::
    "rrd_engine \<Rightarrow> RRDConnectorHandler \<Rightarrow> GroupQuery \<Rightarrow> int \<Rightarrow> int \<Rightarrow> int \<Rightarrow> float64 list
      \<Rightarrow> GroupQuery \<times> (error + (string \<rightharpoonup> PlotResult)) outcome" where
  "GetPlots engine handler query startTime endTime step percentiles =
     rrdGetData engine handler query startTime endTime step percentiles False"

definition GetValue ::
    "rrd_engine \<Rightarrow> RRDConnectorHandler \<Rightarrow> GroupQuery \<Rightarrow> int \<Rightarrow> float64 list
      \<Rightarrow> GroupQuery \<times> (error + (string \<rightharpoonup> (string \<rightharpoonup> PlotValue))) outcome" where
  "GetValue engine handler query refTime percentiles =
     (case rrdGetData engine handler query (refTime - Minute) refTime Minute percentiles True of
        (query', Panic msg) \<Rightarrow> (query', Panic msg)
      | (query', Return (Inl err)) \<Rightarrow> (query', Return (Inl err))
      | (query', Return (Inr data)) \<Rightarrow>
          (query', Return (Inr (\<lambda>serieName. map_option Info (data serieName)))))"

section \<open>Discovery by the RRD connector\<close>

text \<open>
  The channel \<open>handler.origin.inputChan\<close>: the pairs sent on it so far, and
  whether it has been closed. Sending on a closed channel and closing a closed
  channel panic. The consumer that receives from the channel runs outside the
  connector and is not part of this state.
\<close>

record channel =
  chan_sent :: "(string \<times> string) list"
  chan_closed :: bool

text \<open>
  A compiled regular expression, as far as the connector uses it: the names of its
  groups (\<open>SubexpNames\<close>, position 0 for the whole match) and \<open>FindStringSubmatch\<close>,
  which returns the empty list when the text does not match.
\<close>

record Regexp =
  SubexpNames :: "string list"
  FindStringSubmatch :: "string \<Rightarrow> string list"

text \<open>
  What the walk hands to \<open>walkFunc\<close> for one entry: its path, the type bits of its
  mode (\<open>fileInfo.Mode() & os.ModeType\<close>, zero for a regular file) and the error met
  on the way to it.
\<close>

record FileEntry =
  filePath :: string
  fileMode :: nat
  walkErr :: "error option"

text \<open>
  The world the discovery reads: \<open>Compile\<close> is the regexp compiler (\<open>None\<close> for a
  pattern that is not a regular expression), \<open>walk\<close> lists the entries under a
  root in the order of the walk, \<open>rrd_Info\<close> reads the metadata of a file and
  returns the dataset names under its key \<open>ds.index\<close> in the order the map is
  ranged over (\<open>None\<close> when the key is missing).
\<close>

record discovery_world =
  Compile :: "string \<Rightarrow> Regexp option"
  walk :: "string \<Rightarrow> FileEntry list"
  rrd_Info :: "string \<Rightarrow> error + string list option"

text \<open>The validation loop over \<open>re.SubexpNames()\<close>, filling the map \<open>groups\<close>.\<close>

fun pattern_keywords :: "string list \<Rightarrow> (string \<Rightarrow> bool) \<Rightarrow> error + (string \<Rightarrow> bool)" where
  "pattern_keywords [] groups = Inr groups"
| "pattern_keywords (key # rest) groups =
     (if key = [] then pattern_keywords rest groups
      else if key = ''source'' \<or> key = ''metric''
      then pattern_keywords rest (groups(key := True))
      else Inl (Error (''invalid pattern keyword `'' @ key @ apostrophe)))"

text \<open>
  The loop over the datasets of one file: send the pair, then record the dataset.
  The state is \<open>handler.metrics\<close> and the channel.
\<close>

fun register_datasets ::
    "string \<Rightarrow> string \<Rightarrow> string \<Rightarrow> string list
      \<Rightarrow> (string \<rightharpoonup> (string \<rightharpoonup> RRDMetric)) \<times> channel
      \<Rightarrow> ((string \<rightharpoonup> (string \<rightharpoonup> RRDMetric)) \<times> channel) outcome" where
  "register_datasets source metric path [] st = Return st"
| "register_datasets source metric path (dsName # rest) (ms, ch) =
     (let metricName = metric @ ''/'' @ dsName in
      if chan_closed ch then Panic ''send on closed channel''
      else
        (case ms source of
           None \<Rightarrow> Panic ''assignment to entry in nil map''
         | Some table \<Rightarrow>
             register_datasets source metric path rest
               (ms(source \<mapsto> table(metricName \<mapsto> \<lparr>Dataset = dsName, FilePath = path\<rparr>)),
                ch\<lparr>chan_sent := chan_sent ch @ [(source, metricName)]\<rparr>)))"

text \<open>
  \<open>walkFunc\<close>, the closure given to the walk; it returns the state and its error.
  The warning it logs for a path that does not match is not part of the state.
\<close>

definition walkFunc ::
    "discovery_world \<Rightarrow> string \<Rightarrow> Regexp \<Rightarrow> FileEntry
      \<Rightarrow> (string \<rightharpoonup> (string \<rightharpoonup> RRDMetric)) \<times> channel
      \<Rightarrow> (((string \<rightharpoonup> (string \<rightharpoonup> RRDMetric)) \<times> channel) \<times> error option) outcome" where
  "walkFunc world rootPath re entry st =
     (case walkErr entry of
        Some err \<Rightarrow> Return (st, Some err)
      | None \<Rightarrow>
          if fileMode entry \<noteq> 0 then Return (st, None)
          else if length (filePath entry) < length rootPath + 1
          then Panic ''slice bounds out of range''
          else
            (let submatch = FindStringSubmatch re (drop (length rootPath + 1) (filePath entry)) in
             if length submatch = 0 then Return (st, None)
             else if length (SubexpNames re) \<le> 1 \<or> length submatch \<le> 2
             then Panic ''index out of range''
             else
               (let source = (if SubexpNames re ! 1 = ''source''
                              then submatch ! 1 else submatch ! 2);
                    metric = (if SubexpNames re ! 1 = ''source''
                              then submatch ! 2 else submatch ! 1);
                    ms = (case fst st source of
                            None \<Rightarrow> (fst st)(source \<mapsto> Map.empty)
                          | Some _ \<Rightarrow> fst st)
                in case rrd_Info world (filePath entry) of
                     Inl err \<Rightarrow> Return ((ms, snd st), Some err)
                   | Inr None \<Rightarrow> Return ((ms, snd st), None)
                   | Inr (Some dsNames) \<Rightarrow>
                       (case register_datasets source metric (filePath entry) dsNames
                               (ms, snd st) of
                          Panic msg \<Rightarrow> Panic msg
                        | Return st' \<Rightarrow> Return (st', None)))))"

text \<open>
  Modelled from the spec: \<open>utils.WalkDir\<close> is a helper of this repository outside
  the source files. The spec: "Recursively walk the configured root directory. Any
  error walking a directory aborts the whole operation immediately (propagated to
  the caller)." The walk calls the function on each entry in order and stops at the
  first error it returns, which is the error of the walk.
\<close>

fun WalkDir ::
    "(FileEntry \<Rightarrow> 's \<Rightarrow> ('s \<times> error option) outcome) \<Rightarrow> FileEntry list \<Rightarrow> 's
      \<Rightarrow> ('s \<times> error option) outcome" where
  "WalkDir f [] st = Return (st, None)"
| "WalkDir f (entry # rest) st =
     (case f entry st of
        Panic msg \<Rightarrow> Panic msg
      | Return (st', Some err) \<Rightarrow> Return (st', Some err)
      | Return (st', None) \<Rightarrow> WalkDir f rest st')"

text \<open>
  \<open>RRDConnectorHandler.Update\<close>: the handler and the channel as the call leaves
  them, and the returned error. \<open>regexp.MustCompile\<close> panics where \<open>Compile\<close>
  fails.
\<close>

definition RRDConnectorHandler_Update ::
    "discovery_world \<Rightarrow> RRDConnectorHandler \<Rightarrow> channel
      \<Rightarrow> (RRDConnectorHandler \<times> channel \<times> error option) outcome" where
  "RRDConnectorHandler_Update world handler ch =
     (case Compile world (Pattern handler) of
        None \<Rightarrow> Panic (''regexp: Compile('' @ Pattern handler @ ''): error parsing regexp'')
      | Some re \<Rightarrow>
          (case pattern_keywords (SubexpNames re) (\<lambda>_. False) of
             Inl err \<Rightarrow> Return (handler, ch, Some err)
           | Inr groups \<Rightarrow>
               if \<not> groups ''source''
               then Return (handler, ch,
                      Some (Error (''missing pattern keyword `source'' @ apostrophe)))
               else if \<not> groups ''metric''
               then Return (handler, ch,
                      Some (Error (''missing pattern keyword `metric'' @ apostrophe)))
               else
                 (case WalkDir (walkFunc world (Path handler) re) (walk world (Path handler))
                         (metrics handler, ch) of
                    Panic msg \<Rightarrow> Panic msg
                  | Return ((ms, ch'), Some err) \<Rightarrow>
                      Return (handler\<lparr>metrics := ms\<rparr>, ch', Some err)
                  | Return ((ms, ch'), None) \<Rightarrow>
                      if chan_closed ch' then Panic ''close of closed channel''
                      else Return (handler\<lparr>metrics := ms\<rparr>, ch'\<lparr>chan_closed := True\<rparr>, None))))"

section \<open>Example inputs\<close>

text \<open>
  Concrete values at which the theorems below are evaluated: a connector that
  knows two metrics of one host, queries over them, a storage engine with fixed
  answers, a catalog of two origins, and three worlds for the discovery.
\<close>

definition example_handler :: RRDConnectorHandler where
  "example_handler =
     \<lparr>Path = ''/var/lib/rrd'',
      Pattern = ''(?P<source>[^/]+)/(?P<metric>.+).rrd'',
      metrics =
        [''host1'' \<mapsto>
           [''load/value'' \<mapsto>
              \<lparr>Dataset = ''value'', FilePath = ''/var/lib/rrd/host1/load.rrd''\<rparr>,
            ''users/value'' \<mapsto>
              \<lparr>Dataset = ''value'', FilePath = ''/var/lib/rrd/host1/users.rrd''\<rparr>]]\<rparr>"

definition example_metric :: "string \<Rightarrow> Metric" where
  "example_metric name =
     \<lparr>Metric_Name = name, OriginalName = name, source_Name = ''host1''\<rparr>"

definition avg_with_absent_metric :: GroupQuery where
  "avg_with_absent_metric =
     \<lparr>Query_Name = ''mean'', Query_Type = OperGroupTypeAvg,
      Series =
        [\<lparr>Serie_Name = ''a'', Serie_Metric = Some (example_metric ''load/value''),
          Serie_Scale = 0\<rparr>,
         \<lparr>Serie_Name = ''b'', Serie_Metric = None, Serie_Scale = 0\<rparr>,
         \<lparr>Serie_Name = ''c'', Serie_Metric = Some (example_metric ''users/value''),
          Serie_Scale = 0\<rparr>],
      Query_Scale = 2\<rparr>"

definition sum_of_one :: GroupQuery where
  "sum_of_one =
     \<lparr>Query_Name = ''total'', Query_Type = OperGroupTypeSum,
      Series =
        [\<lparr>Serie_Name = ''load'', Serie_Metric = Some (example_metric ''load/value''),
          Serie_Scale = 0\<rparr>],
      Query_Scale = 0\<rparr>"

definition example_engine :: rrd_engine where
  "example_engine =
     \<lparr>Xport = (\<lambda>calls startTime endTime step.
         Inr \<lparr>Legends = [''serie0''], RowCnt = 2,
              ValueAt = (\<lambda>index row. Finite (of_nat row + 1))\<rparr>),
      Graph = (\<lambda>calls startTime endTime. Inr [''load,min,1.0'', ''load,max,nope'']),
      ParseFloat = (\<lambda>text. if text = ''1.0'' then Some (Finite 1) else None)\<rparr>"

definition two_origins :: Catalog where
  "two_origins =
     \<lparr>Origins =
        [''a'' \<mapsto> \<lparr>Origin_Name = ''a'', Sources = Map.empty, Connector = None\<rparr>,
         ''b'' \<mapsto>
           \<lparr>Origin_Name = ''b'',
            Sources =
              [''host1'' \<mapsto>
                 \<lparr>Source_Name = ''host1'',
                  Metrics = [''load/value'' \<mapsto> example_metric ''load/value'']\<rparr>],
            Connector = None\<rparr>],
      Updated = 1000, debugLevel = 0\<rparr>"

text \<open>An \<open>Origin.Update\<close> that fails for the origin \<open>a\<close> and succeeds for any other.\<close>

definition failing_for_a :: "Origin \<Rightarrow> error option \<times> Origin" where
  "failing_for_a origin =
     (if Origin_Name origin = ''a'' then (Some (Error ''walk failed''), origin)
      else (None, origin))"

definition source_metric_regexp :: Regexp where
  "source_metric_regexp =
     \<lparr>SubexpNames = ['''', ''source'', ''metric''],
      FindStringSubmatch =
        (\<lambda>text. if text = ''host1/load.rrd'' then [text, ''host1'', ''load''] else [])\<rparr>"

text \<open>
  A world whose walk meets one readable file, one where the walk fails at an
  unreadable directory after that file, and one whose pattern does not compile.
\<close>

definition world_readable :: discovery_world where
  "world_readable =
     \<lparr>Compile = (\<lambda>pattern. Some source_metric_regexp),
      walk = (\<lambda>dir.
        [\<lparr>filePath = ''/var/lib/rrd'', fileMode = 1, walkErr = None\<rparr>,
         \<lparr>filePath = ''/var/lib/rrd/host1/load.rrd'', fileMode = 0, walkErr = None\<rparr>]),
      rrd_Info = (\<lambda>file. Inr (Some [''value'']))\<rparr>"

definition world_unreadable :: discovery_world where
  "world_unreadable =
     \<lparr>Compile = (\<lambda>pattern. Some source_metric_regexp),
      walk = (\<lambda>dir.
        [\<lparr>filePath = ''/var/lib/rrd'', fileMode = 1, walkErr = None\<rparr>,
         \<lparr>filePath = ''/var/lib/rrd/host1/load.rrd'', fileMode = 0, walkErr = None\<rparr>,
         \<lparr>filePath = ''/var/lib/rrd/host2'', fileMode = 1,
          walkErr = Some (Error ''permission denied'')\<rparr>]),
      rrd_Info = (\<lambda>file. Inr (Some [''value'']))\<rparr>"

definition world_bad_pattern :: discovery_world where
  "world_bad_pattern =
     \<lparr>Compile = (\<lambda>pattern. None),
      walk = (\<lambda>dir. []),
      rrd_Info = (\<lambda>file. Inr None)\<rparr>"

definition fresh_handler :: "string \<Rightarrow> RRDConnectorHandler" where
  "fresh_handler pattern =
     \<lparr>Path = ''/var/lib/rrd'', Pattern = pattern, metrics = Map.empty\<rparr>"

definition open_channel :: channel where
  "open_channel = \<lparr>chan_sent = [], chan_closed = False\<rparr>"

section \<open>Evaluating decimal renderings\<close>

lemma digit_chars:
  "char_of (48::nat) = CHR ''0''" "char_of (49::nat) = CHR ''1''"
  "char_of (50::nat) = CHR ''2''" "char_of (51::nat) = CHR ''3''"
  "char_of (52::nat) = CHR ''4''" "char_of (53::nat) = CHR ''5''"
  "char_of (54::nat) = CHR ''6''" "char_of (55::nat) = CHR ''7''"
  "char_of (56::nat) = CHR ''8''" "char_of (57::nat) = CHR ''9''"
  by code_simp+

lemma Itoa_nat_0: "Itoa_nat 0 = ''0''"
  by (simp add: Itoa_nat.simps digit_chars)

lemma digits_fixed_6:
  "digits_fixed 6 m =
     [char_of (48 + m div 100000 mod 10), char_of (48 + m div 10000 mod 10),
      char_of (48 + m div 1000 mod 10), char_of (48 + m div 100 mod 10),
      char_of (48 + m div 10 mod 10), char_of (48 + m mod 10)]"
proof -
  have s: "(6::nat) = Suc (Suc (Suc (Suc (Suc (Suc 0)))))" by simp
  show ?thesis unfolding s by (simp add: div_mult2_eq [symmetric])
qed

text \<open>The verb \<open>%f\<close> on four numbers; the third one is rounded.\<close>

lemma fmt_f_6_examples:
  "fmt_f 6 (F64 2) = ''2.000000''" "fmt_f 6 (F64 (- 5 / 2)) = ''-2.500000''"
  "fmt_f 6 (F64 (2 / 3)) = ''0.666667''" "fmt_f 6 NegZero = ''-0.000000''"
proof -
  show "fmt_f 6 (F64 2) = ''2.000000''" "fmt_f 6 (F64 (- 5 / 2)) = ''-2.500000''"
    "fmt_f 6 NegZero = ''-0.000000''"
    by (simp_all add: fmt_f_def round_half_even_def digits_fixed_6 Itoa_nat.simps
          digit_chars)
  have "\<lfloor>2000000 / 3 :: rat\<rfloor> = 666666" by (rule floor_unique) simp_all
  then show "fmt_f 6 (F64 (2 / 3)) = ''0.666667''"
    by (simp add: fmt_f_def round_half_even_def digits_fixed_6 Itoa_nat.simps
          digit_chars Let_def)
qed

section \<open>The catalog: lookups and origins\<close>

text \<open>
  C7. \<open>MetricExists\<close> is true exactly when \<open>GetMetric\<close> returns a metric;
  \<open>GetMetric\<close> never panics; and when the origin, the source in it or the metric
  in that source is missing, \<open>MetricExists\<close> is false and \<open>GetMetric\<close> returns nil.
\<close>

theorem MetricExists_iff_GetMetric:
  "(MetricExists c origin source name \<longleftrightarrow>
      (\<exists>m. GetMetric c origin source name = Return (Some m)))
   \<and> (\<not> MetricExists c origin source name \<longleftrightarrow>
        GetMetric c origin source name = Return None)
   \<and> (\<forall>msg. GetMetric c origin source name \<noteq> Panic msg)
   \<and> (Origins c origin = None \<longrightarrow>
        \<not> MetricExists c origin source name \<and> GetMetric c origin source name = Return None)
   \<and> (\<forall>og. Origins c origin = Some og \<and> Sources og source = None \<longrightarrow>
        \<not> MetricExists c origin source name \<and> GetMetric c origin source name = Return None)
   \<and> (\<forall>og sr. Origins c origin = Some og \<and> Sources og source = Some sr
          \<and> Metrics sr name = None \<longrightarrow>
        \<not> MetricExists c origin source name \<and> GetMetric c origin source name = Return None)"
  by (auto simp: MetricExists_def GetMetric_def split: option.splits)

theorem MetricExists_iff_GetMetric_witness:
  "MetricExists two_origins ''b'' ''host1'' ''load/value''
   \<and> (\<exists>m. GetMetric two_origins ''b'' ''host1'' ''load/value'' = Return (Some m))
   \<and> Origins two_origins ''c'' = None
   \<and> \<not> MetricExists two_origins ''c'' ''host1'' ''load/value''
   \<and> GetMetric two_origins ''c'' ''host1'' ''load/value'' = Return None
   \<and> (\<exists>og. Origins two_origins ''a'' = Some og \<and> Sources og ''host1'' = None)
   \<and> \<not> MetricExists two_origins ''a'' ''host1'' ''load/value''
   \<and> GetMetric two_origins ''a'' ''host1'' ''load/value'' = Return None
   \<and> (\<exists>og sr. Origins two_origins ''b'' = Some og \<and> Sources og ''host1'' = Some sr
         \<and> Metrics sr ''users/value'' = None)
   \<and> \<not> MetricExists two_origins ''b'' ''host1'' ''users/value''
   \<and> GetMetric two_origins ''b'' ''host1'' ''users/value'' = Return None"
proof -
  have present: "MetricExists two_origins ''b'' ''host1'' ''load/value''"
    by (simp add: two_origins_def MetricExists_def)
  have no_origin: "Origins two_origins ''c'' = None"
    by (simp add: two_origins_def)
  have no_source:
    "\<exists>og. Origins two_origins ''a'' = Some og \<and> Sources og ''host1'' = None"
    by (simp add: two_origins_def)
  have no_metric:
    "\<exists>og sr. Origins two_origins ''b'' = Some og \<and> Sources og ''host1'' = Some sr
       \<and> Metrics sr ''users/value'' = None"
    by (simp add: two_origins_def)
  from present
    MetricExists_iff_GetMetric [of two_origins "''b''" "''host1''" "''load/value''"]
  have 1: "\<exists>m. GetMetric two_origins ''b'' ''host1'' ''load/value'' = Return (Some m)"
    by blast
  from no_origin
    MetricExists_iff_GetMetric [of two_origins "''c''" "''host1''" "''load/value''"]
  have 2: "\<not> MetricExists two_origins ''c'' ''host1'' ''load/value''
      \<and> GetMetric two_origins ''c'' ''host1'' ''load/value'' = Return None"
    by blast
  from no_source
    MetricExists_iff_GetMetric [of two_origins "''a''" "''host1''" "''load/value''"]
  have 3: "\<not> MetricExists two_origins ''a'' ''host1'' ''load/value''
      \<and> GetMetric two_origins ''a'' ''host1'' ''load/value'' = Return None"
    by blast
  from no_metric
    MetricExists_iff_GetMetric [of two_origins "''b''" "''host1''" "''users/value''"]
  have 4: "\<not> MetricExists two_origins ''b'' ''host1'' ''users/value''
      \<and> GetMetric two_origins ''b'' ''host1'' ''users/value'' = Return None"
    by blast
  from present no_origin no_source no_metric 1 2 3 4 show ?thesis by blast
qed

text \<open>
  C8. When the configuration has no \<open>type\<close>, or a type the registry does not know,
  \<open>AddOrigin\<close> returns an error and the catalog it leaves is the one it found; so
  it is when the registered constructor returns an error; and whenever \<open>AddOrigin\<close>
  returns an error the map of origins is unchanged.
\<close>

theorem AddOrigin_failure_keeps_Origins:
  "(config ''type'' = None \<longrightarrow>
      AddOrigin H c name config = (c, Inl (Error ''missing backend type'')))
   \<and> (\<forall>ty. config ''type'' = Some ty \<and> H ty = None \<longrightarrow>
        AddOrigin H c name config =
          (c, Inl (Error (''unknown `'' @ ty @ apostrophe @ '' backend type''))))
   \<and> (\<forall>ty ctor err origin'.
        config ''type'' = Some ty \<and> H ty = Some ctor
        \<and> ctor \<lparr>Origin_Name = name, Sources = Map.empty, Connector = None\<rparr> config
            = (Some err, origin') \<longrightarrow>
        AddOrigin H c name config = (c, Inl err))
   \<and> (\<forall>c' err. AddOrigin H c name config = (c', Inl err) \<longrightarrow>
        c' = c \<and> Origins c' = Origins c)"
  by (auto simp: AddOrigin_def Let_def split: option.splits prod.splits)

theorem AddOrigin_failure_keeps_Origins_witness:
  "AddOrigin [''rrd'' \<mapsto> rrd_constructor] two_origins ''c'' [''path'' \<mapsto> ''/var/lib/rrd'']
     = (two_origins, Inl (Error ''missing backend type''))
   \<and> AddOrigin [''rrd'' \<mapsto> rrd_constructor] two_origins ''c'' [''type'' \<mapsto> ''graphite'']
     = (two_origins, Inl (Error (''unknown `graphite'' @ apostrophe @ '' backend type'')))
   \<and> AddOrigin [''rrd'' \<mapsto> rrd_constructor] two_origins ''c'' [''type'' \<mapsto> ''rrd'']
     = (two_origins,
        Inl (Error (''missing `path'' @ apostrophe @ '' mandatory connector setting'')))"
proof -
  let ?H = "[''rrd'' \<mapsto> rrd_constructor]"
  have a: "[''path'' \<mapsto> ''/var/lib/rrd''] ''type'' = None"
    by simp
  have b: "[''type'' \<mapsto> ''graphite''] ''type'' = Some ''graphite'' \<and> ?H ''graphite'' = None"
    by simp
  have c: "[''type'' \<mapsto> ''rrd''] ''type'' = Some ''rrd'' \<and> ?H ''rrd'' = Some rrd_constructor
      \<and> rrd_constructor \<lparr>Origin_Name = ''c'', Sources = Map.empty, Connector = None\<rparr>
            [''type'' \<mapsto> ''rrd'']
          = (Some (Error (''missing `path'' @ apostrophe @ '' mandatory connector setting'')),
             \<lparr>Origin_Name = ''c'', Sources = Map.empty, Connector = None\<rparr>)"
    by (simp add: rrd_constructor_def)
  from a AddOrigin_failure_keeps_Origins
      [of "[''path'' \<mapsto> ''/var/lib/rrd'']" ?H two_origins "''c''"]
  have 1: "AddOrigin ?H two_origins ''c'' [''path'' \<mapsto> ''/var/lib/rrd'']
      = (two_origins, Inl (Error ''missing backend type''))"
    by blast
  from b AddOrigin_failure_keeps_Origins
      [of "[''type'' \<mapsto> ''graphite'']" ?H two_origins "''c''"]
  have 2: "AddOrigin ?H two_origins ''c'' [''type'' \<mapsto> ''graphite'']
      = (two_origins, Inl (Error (''unknown `'' @ ''graphite'' @ apostrophe @ '' backend type'')))"
    by blast
  from c AddOrigin_failure_keeps_Origins
      [of "[''type'' \<mapsto> ''rrd'']" ?H two_origins "''c''"]
  have 3: "AddOrigin ?H two_origins ''c'' [''type'' \<mapsto> ''rrd'']
      = (two_origins,
         Inl (Error (''missing `path'' @ apostrophe @ '' mandatory connector setting'')))"
    by blast
  from 1 2 3 show ?thesis by simp
qed

section \<open>The catalog: refreshing the origins\<close>

text \<open>
  What the loop of \<open>Catalog.Update\<close> computes, for any order that visits each key
  once: every origin of the map is replaced by the result of its update, the others
  are untouched, and \<open>success\<close> stays true exactly when no update returned an
  error.
\<close>

lemma Update_range_result:
  assumes "distinct ks"
    and "Update_range u ks os err success lg = (os', err', success', lg')"
  shows "(success' \<longleftrightarrow> success \<and> (\<forall>k \<in> set ks. \<forall>og. os k = Some og \<longrightarrow> fst (u og) = None))
         \<and> (\<forall>k. os' k = (if k \<in> set ks then map_option (\<lambda>og. snd (u og)) (os k) else os k))"
  using assms
proof (induction ks arbitrary: os err success lg)
  case Nil
  then show ?case by simp
next
  case (Cons k ks)
  from Cons.prems(1) have d: "distinct ks" and nk: "k \<notin> set ks" by simp_all
  show ?case
  proof (cases "os k")
    case None
    with Cons.prems(2) have "Update_range u ks os err success lg = (os', err', success', lg')"
      by simp
    from Cons.IH [OF d this] None show ?thesis by auto
  next
    case (Some og)
    obtain r og' where r: "u og = (r, og')" by (cases "u og")
    show ?thesis
    proof (cases r)
      case None
      with Some r Cons.prems(2)
      have "Update_range u ks (os(k \<mapsto> og')) None success lg = (os', err', success', lg')"
        by simp
      from Cons.IH [OF d this] Some r None nk show ?thesis by auto
    next
      case (Some e)
      with \<open>os k = Some og\<close> r Cons.prems(2)
      have "Update_range u ks (os(k \<mapsto> og')) (Some e) False (lg @ [''ERROR: '' @ message e])
              = (os', err', success', lg')"
        by simp
      from Cons.IH [OF d this] \<open>os k = Some og\<close> r Some nk show ?thesis by auto
    qed
  qed
qed

text \<open>The variable \<open>err\<close> after the loop is the result of the last update made.\<close>

lemma Update_range_err_last:
  assumes "distinct (ks @ [k])" and "os k = Some og"
    and "Update_range u (ks @ [k]) os err success lg = (os', err', success', lg')"
  shows "err' = fst (u og)"
  using assms
proof (induction ks arbitrary: os err success lg)
  case Nil
  then show ?case by (auto split: prod.splits option.splits)
next
  case (Cons j ks)
  from Cons.prems(1) have d: "distinct (ks @ [k])" and jk: "j \<noteq> k" by auto
  show ?case
  proof (cases "os j")
    case None
    with Cons.prems(3)
    have "Update_range u (ks @ [k]) os err success lg = (os', err', success', lg')" by simp
    from Cons.IH [OF d Cons.prems(2) this] show ?thesis .
  next
    case (Some oj)
    obtain r oj' where r: "u oj = (r, oj')" by (cases "u oj")
    from jk Cons.prems(2) have k: "(os(j \<mapsto> oj')) k = Some og" by simp
    show ?thesis
    proof (cases r)
      case None
      with Some r Cons.prems(3)
      have "Update_range u (ks @ [k]) (os(j \<mapsto> oj')) None success lg
              = (os', err', success', lg')"
        by simp
      from Cons.IH [OF d k this] show ?thesis .
    next
      case (Some e)
      with \<open>os j = Some oj\<close> r Cons.prems(3)
      have "Update_range u (ks @ [k]) (os(j \<mapsto> oj')) (Some e) False
              (lg @ [''ERROR: '' @ message e]) = (os', err', success', lg')"
        by simp
      from Cons.IH [OF d k this] show ?thesis .
    qed
  qed
qed

text \<open>
  The parts of the refresh policy the source keeps, for any order of the visit:
  every origin is updated; after a failure \<open>Updated\<close> is unchanged; after a pass
  with no failure \<open>Updated\<close> is the current time and the result is nil. The
  returned error is the result of the origin visited last.
\<close>

lemma Catalog_Update_attempts_all:
  assumes "distinct ks" and "k \<in> set ks" and "Origins c k = Some og"
  shows "Origins (fst (Catalog_Update u now ks c)) k = Some (snd (u og))"
proof -
  obtain os' err' success' lg' where
    r: "Update_range u ks (Origins c) None True [''INFO: catalog update started'']
          = (os', err', success', lg')"
    by (metis prod_cases4)
  from Update_range_result [OF assms(1) r] assms(2,3)
  have "os' k = Some (snd (u og))" by simp
  with r show ?thesis by (simp add: Catalog_Update_def)
qed

lemma Catalog_Update_failure_keeps_Updated:
  assumes "distinct ks" and "k \<in> set ks" and "Origins c k = Some og"
    and "fst (u og) \<noteq> None"
  shows "Updated (fst (Catalog_Update u now ks c)) = Updated c"
proof -
  obtain os' err' success' lg' where
    r: "Update_range u ks (Origins c) None True [''INFO: catalog update started'']
          = (os', err', success', lg')"
    by (metis prod_cases4)
  from Update_range_result [OF assms(1) r] assms(2,3,4)
  have "\<not> success'" by auto
  with r show ?thesis by (simp add: Catalog_Update_def)
qed

lemma Catalog_Update_clean_pass:
  assumes "distinct ks"
    and "\<forall>k \<in> set ks. \<forall>og. Origins c k = Some og \<longrightarrow> fst (u og) = None"
  shows "Updated (fst (Catalog_Update u now ks c)) = now
         \<and> fst (snd (Catalog_Update u now ks c)) = None"
proof -
  obtain os' err' success' lg' where
    r: "Update_range u ks (Origins c) None True [''INFO: catalog update started'']
          = (os', err', success', lg')"
    by (metis prod_cases4)
  from Update_range_result [OF assms(1) r] assms(2)
  have "success'" by auto
  with r show ?thesis by (simp add: Catalog_Update_def)
qed

lemma Catalog_Update_returns_last_result:
  assumes "distinct (ks @ [k])" and "Origins c k = Some og"
    and "j \<in> set ks" and "Origins c j = Some oj" and "fst (u oj) \<noteq> None"
  shows "fst (snd (Catalog_Update u now (ks @ [k]) c)) = fst (u og)"
proof -
  obtain os' err' success' lg' where
    r: "Update_range u (ks @ [k]) (Origins c) None True [''INFO: catalog update started'']
          = (os', err', success', lg')"
    by (metis prod_cases4)
  from Update_range_result [OF assms(1) r] assms(3,4,5)
  have "\<not> success'" by auto
  moreover from Update_range_err_last [OF assms(1,2) r] have "err' = fst (u og)" .
  ultimately show ?thesis using r by (simp add: Catalog_Update_def)
qed

text \<open>
  C1. Two origins, \<open>a\<close> whose update fails and \<open>b\<close> whose update succeeds. When the
  range visits \<open>a\<close> before \<open>b\<close>, \<open>Update\<close> logs the error and the failed pass and
  leaves \<open>Updated\<close> at its value, but the error it returns is nil: the variable
  \<open>err\<close> is assigned again by the update of \<open>b\<close>. Visited in the other order the
  same catalog returns the error of \<open>a\<close>.
\<close>

theorem Catalog_Update_returns_nil_after_failure:
  "Catalog_Update failing_for_a 2000 [''a'', ''b''] two_origins
     = (two_origins, None,
        [''INFO: catalog update started'', ''ERROR: walk failed'',
         ''INFO: catalog update failed''])
   \<and> fst (snd (Catalog_Update failing_for_a 2000 [''b'', ''a''] two_origins))
     = Some (Error ''walk failed'')
   \<and> Updated (fst (Catalog_Update failing_for_a 2000 [''a'', ''b''] two_origins)) = 1000"
proof -
  have a: "Origins two_origins ''a''
      = Some \<lparr>Origin_Name = ''a'', Sources = Map.empty, Connector = None\<rparr>"
    by (simp add: two_origins_def)
  obtain ob where b: "Origins two_origins ''b'' = Some ob" and nb: "Origin_Name ob = ''b''"
    by (simp add: two_origins_def)
  have ua: "failing_for_a \<lparr>Origin_Name = ''a'', Sources = Map.empty, Connector = None\<rparr>
      = (Some (Error ''walk failed''),
         \<lparr>Origin_Name = ''a'', Sources = Map.empty, Connector = None\<rparr>)"
    by (simp add: failing_for_a_def)
  have ub: "failing_for_a ob = (None, ob)"
    using nb by (simp add: failing_for_a_def)
  have same: "(Origins two_origins)
      (''a'' \<mapsto> \<lparr>Origin_Name = ''a'', Sources = Map.empty, Connector = None\<rparr>, ''b'' \<mapsto> ob)
      = Origins two_origins"
    using a b by (auto simp: fun_eq_iff)
  have same': "(Origins two_origins)
      (''b'' \<mapsto> ob, ''a'' \<mapsto> \<lparr>Origin_Name = ''a'', Sources = Map.empty, Connector = None\<rparr>)
      = Origins two_origins"
    using a b by (auto simp: fun_eq_iff)
  have 1: "Catalog_Update failing_for_a 2000 [''a'', ''b''] two_origins
     = (two_origins, None,
        [''INFO: catalog update started'', ''ERROR: walk failed'',
         ''INFO: catalog update failed''])"
    by (simp add: Catalog_Update_def a b ua ub same)
  have 2: "fst (snd (Catalog_Update failing_for_a 2000 [''b'', ''a''] two_origins))
     = Some (Error ''walk failed'')"
    by (simp add: Catalog_Update_def a b ua ub same')
  have "Updated two_origins = 1000" by (simp add: two_origins_def)
  with 1 2 show ?thesis by simp
qed

section \<open>The query engine: one serie, and the caller's query\<close>

lemma plan_None_no_error:
  "rrdGetData_plan handler (q\<lparr>Query_Type := OperGroupTypeNone\<rparr>) percentiles infoOnly
     \<noteq> Return (Inl err)"
  by (simp add: rrdGetData_plan_def split: outcome.splits)

lemma rrdGetData_single_query:
  "length (Series q) = 1 \<Longrightarrow>
     fst (rrdGetData engine handler q startTime endTime step percentiles infoOnly)
       = q\<lparr>Query_Type := OperGroupTypeNone\<rparr>"
  by (cases "Query_Type q = OperGroupTypeNone") (simp_all add: rrdGetData_def Let_def)

lemma rrdGetData_single_as_None:
  assumes "length (Series q) = 1"
  shows "rrdGetData engine handler q startTime endTime step percentiles infoOnly
           = rrdGetData engine handler (q\<lparr>Query_Type := OperGroupTypeNone\<rparr>)
               startTime endTime step percentiles infoOnly"
proof (cases "Query_Type q = OperGroupTypeNone")
  case True
  then have "q\<lparr>Query_Type := OperGroupTypeNone\<rparr> = q" by simp
  then show ?thesis by simp
next
  case False
  with assms show ?thesis by (simp add: rrdGetData_def Let_def)
qed

text \<open>
  C6. A query with exactly one serie is evaluated as the same query with
  \<open>Type = None\<close>, whatever its \<open>Type\<close> (also a value outside the known operators):
  \<open>rrdGetData\<close>, \<open>GetPlots\<close> and \<open>GetValue\<close> give the same result, series for
  series, and the operator switch does not return its unknown-operator error.
\<close>

theorem single_serie_evaluates_as_None:
  assumes "length (Series q) = 1"
  shows "rrdGetData engine handler q startTime endTime step percentiles infoOnly
           = rrdGetData engine handler (q\<lparr>Query_Type := OperGroupTypeNone\<rparr>)
               startTime endTime step percentiles infoOnly
         \<and> GetPlots engine handler q startTime endTime step percentiles
           = GetPlots engine handler (q\<lparr>Query_Type := OperGroupTypeNone\<rparr>)
               startTime endTime step percentiles
         \<and> GetValue engine handler q refTime percentiles
           = GetValue engine handler (q\<lparr>Query_Type := OperGroupTypeNone\<rparr>)
               refTime percentiles
         \<and> (\<forall>err. rrdGetData_plan handler
                (fst (rrdGetData engine handler q startTime endTime step percentiles infoOnly))
                percentiles infoOnly \<noteq> Return (Inl err))"
proof -
  have "GetValue engine handler q refTime percentiles
      = GetValue engine handler (q\<lparr>Query_Type := OperGroupTypeNone\<rparr>) refTime percentiles"
    unfolding GetValue_def
    by (simp only: rrdGetData_single_as_None [OF assms])
  moreover have "GetPlots engine handler q startTime endTime step percentiles
      = GetPlots engine handler (q\<lparr>Query_Type := OperGroupTypeNone\<rparr>)
          startTime endTime step percentiles"
    unfolding GetPlots_def by (rule rrdGetData_single_as_None [OF assms])
  moreover note rrdGetData_single_as_None [OF assms]
  moreover have "\<forall>err. rrdGetData_plan handler
                (fst (rrdGetData engine handler q startTime endTime step percentiles infoOnly))
                percentiles infoOnly \<noteq> Return (Inl err)"
    by (simp only: rrdGetData_single_query [OF assms] plan_None_no_error
          not_False_eq_True simp_thms)
  ultimately show ?thesis by blast
qed

theorem single_serie_evaluates_as_None_witness:
  "length (Series sum_of_one) = 1
   \<and> GetPlots example_engine example_handler sum_of_one 0 120 60 [F64 50]
     = GetPlots example_engine example_handler (sum_of_one\<lparr>Query_Type := OperGroupTypeNone\<rparr>)
         0 120 60 [F64 50]
   \<and> GetPlots example_engine example_handler
        (sum_of_one\<lparr>Query_Type := OperGroupTypeOther 7\<rparr>) 0 120 60 [F64 50]
     = GetPlots example_engine example_handler (sum_of_one\<lparr>Query_Type := OperGroupTypeNone\<rparr>)
         0 120 60 [F64 50]"
proof -
  have one: "length (Series sum_of_one) = 1"
    and other: "length (Series (sum_of_one\<lparr>Query_Type := OperGroupTypeOther 7\<rparr>)) = 1"
    by (simp_all add: sum_of_one_def)
  from single_serie_evaluates_as_None [OF one] single_serie_evaluates_as_None [OF other] one
  show ?thesis by simp
qed

text \<open>
  C9. For a query with exactly one serie and a \<open>Type\<close> other than \<open>None\<close>, the
  query the caller holds after \<open>GetPlots\<close> or \<open>GetValue\<close> is the one it passed with
  \<open>Type\<close> overwritten by \<open>None\<close>; its name, its series and its scale are unchanged.
\<close>

theorem evaluation_overwrites_Type:
  assumes "length (Series q) = 1" and "Query_Type q \<noteq> OperGroupTypeNone"
  shows "fst (GetPlots engine handler q startTime endTime step percentiles)
           = q\<lparr>Query_Type := OperGroupTypeNone\<rparr>
         \<and> fst (GetValue engine handler q refTime percentiles)
           = q\<lparr>Query_Type := OperGroupTypeNone\<rparr>
         \<and> fst (GetPlots engine handler q startTime endTime step percentiles) \<noteq> q
         \<and> Query_Name (fst (GetPlots engine handler q startTime endTime step percentiles))
           = Query_Name q
         \<and> Series (fst (GetPlots engine handler q startTime endTime step percentiles))
           = Series q
         \<and> Query_Scale (fst (GetPlots engine handler q startTime endTime step percentiles))
           = Query_Scale q"
proof -
  have p: "fst (GetPlots engine handler q startTime endTime step percentiles)
             = q\<lparr>Query_Type := OperGroupTypeNone\<rparr>"
    unfolding GetPlots_def by (rule rrdGetData_single_query [OF assms(1)])
  have "fst (rrdGetData engine handler q (refTime - Minute) refTime Minute percentiles True)
          = q\<lparr>Query_Type := OperGroupTypeNone\<rparr>"
    by (rule rrdGetData_single_query [OF assms(1)])
  then have v: "fst (GetValue engine handler q refTime percentiles)
             = q\<lparr>Query_Type := OperGroupTypeNone\<rparr>"
    unfolding GetValue_def by (auto split: prod.splits outcome.splits sum.splits)
  have "Query_Type (q\<lparr>Query_Type := OperGroupTypeNone\<rparr>) \<noteq> Query_Type q"
    using assms(2) by simp
  then have "q\<lparr>Query_Type := OperGroupTypeNone\<rparr> \<noteq> q" by metis
  with p v show ?thesis by simp
qed

theorem evaluation_overwrites_Type_witness:
  "length (Series sum_of_one) = 1 \<and> Query_Type sum_of_one \<noteq> OperGroupTypeNone
   \<and> Query_Type (fst (GetPlots example_engine example_handler sum_of_one 0 120 60 [F64 50]))
       = OperGroupTypeNone
   \<and> Query_Type (fst (GetValue example_engine example_handler sum_of_one 120 [F64 50]))
       = OperGroupTypeNone"
proof -
  have one: "length (Series sum_of_one) = 1"
    and sum: "Query_Type sum_of_one \<noteq> OperGroupTypeNone"
    by (simp_all add: sum_of_one_def)
  from evaluation_overwrites_Type [OF one sum] one sum show ?thesis by simp
qed

text \<open>
  A run of \<open>GetPlots\<close> on the example engine: the sum over one serie is planned as
  that serie alone, the export fills its samples under the name of the serie, and
  the print lines fill its statistics, NaN where the number does not parse.
\<close>

lemma GetPlots_sum_of_one:
  "\<exists>result entry.
     GetPlots example_engine example_handler sum_of_one 0 120 60 []
       = (sum_of_one\<lparr>Query_Type := OperGroupTypeNone\<rparr>, Return (Inr result))
     \<and> result ''load'' = Some entry \<and> result ''total'' = None
     \<and> Plots entry = [Finite 1, Finite 2]
     \<and> Info entry ''min'' = Some (Finite 1) \<and> Info entry ''max'' = Some NaN"
proof -
  have m: "handler_metric example_handler (example_metric ''load/value'')
        = Some \<lparr>Dataset = ''value'', FilePath = ''/var/lib/rrd/host1/load.rrd''\<rparr>"
    by (simp add: handler_metric_def example_handler_def example_metric_def)
  have s: "SplitN ''load,min,1.0'' (CHR '','') 3 = [''load'', ''min'', ''1.0'']"
    "SplitN ''load,max,nope'' (CHR '','') 3 = [''load'', ''max'', ''nope'']"
    by (simp_all add: numeral_3_eq_3)
  have u: "[0..<2] = [0, 1]" by (simp add: upt_rec)
  show ?thesis
    by (simp add: GetPlots_def rrdGetData_def rrdGetData_plan_def sum_of_one_def m s u
          example_engine_def Itoa_nat_0 Let_def rrdSetGraph_def)
qed

section \<open>The query engine: the average of a group\<close>

text \<open>
  For every query of type \<open>Avg\<close>, the expression of the output serie ends with the
  number of series of the query, those without a metric included, and the division.
\<close>

lemma plan_group_Avg_divisor:
  assumes "Query_Type q = OperGroupTypeAvg"
    and "plan_group handler q percentiles infoOnly = Return p"
  shows "\<exists>stack0. CDef ''serie0-orig''
           (Join (stack0 @ [Itoa (int (length (Series q))), ''/'']) '','')
         \<in> set (plan_graph p)"
proof -
  from assms(2) obtain p0 stack0 where
    "plan_group_range handler infoOnly ''serie0'' (Series q) 0
        \<lparr>plan_graph = [], plan_xport = [], plan_series = Map.empty\<rparr> [] = Return (p0, stack0)"
    by (auto simp: plan_group_def Itoa_nat_0 Let_def split: outcome.splits)
  with assms have "CDef ''serie0-orig''
           (Join (stack0 @ [Itoa (int (length (Series q))), ''/'']) '','')
         \<in> set (plan_graph p)"
    by (auto simp: plan_group_def Itoa_nat_0 Let_def rrdSetGraph_def)
  then show ?thesis by blast
qed

text \<open>
  C2. A query of type \<open>Avg\<close> with three series, the second without a metric, and a
  group scale of 2: two series contribute, and the fold adds those two, but the
  divisor written into the expression is 3, the length of \<open>query.Series\<close>. The
  scale multiplies the result of the division.
\<close>

theorem Avg_divides_by_length_of_Series:
  "(\<exists>p. rrdGetData_plan example_handler avg_with_absent_metric [] True = Return (Inr p)
       \<and> take 4 (plan_graph p) =
           [Def ''serie0-tmp0'' ''/var/lib/rrd/host1/load.rrd'' ''value'' ''AVERAGE'',
            Def ''serie0-tmp2'' ''/var/lib/rrd/host1/users.rrd'' ''value'' ''AVERAGE'',
            CDef ''serie0-orig'' ''serie0-tmp0,serie0-tmp2,+,3,/'',
            CDef ''serie0'' ''serie0-orig,2.000000,*''])
   \<and> length (filter (\<lambda>serie. Serie_Metric serie \<noteq> None) (Series avg_with_absent_metric)) = 2
   \<and> length (Series avg_with_absent_metric) = 3"
proof -
  have digits: "Itoa_nat 0 = ''0''" "Itoa_nat (Suc 0) = ''1''" "Itoa_nat 2 = ''2''"
    "Itoa 3 = ''3''" "fmt_f 6 (F64 2) = ''2.000000''"
    by (simp_all add: Itoa_def Itoa_nat.simps digit_chars fmt_f_6_examples)
  have m: "handler_metric example_handler (example_metric ''load/value'')
        = Some \<lparr>Dataset = ''value'', FilePath = ''/var/lib/rrd/host1/load.rrd''\<rparr>"
    "handler_metric example_handler (example_metric ''users/value'')
        = Some \<lparr>Dataset = ''value'', FilePath = ''/var/lib/rrd/host1/users.rrd''\<rparr>"
    by (simp_all add: handler_metric_def example_handler_def example_metric_def)
  have "\<exists>p. plan_group example_handler avg_with_absent_metric [] True = Return p
       \<and> take 4 (plan_graph p) =
           [Def ''serie0-tmp0'' ''/var/lib/rrd/host1/load.rrd'' ''value'' ''AVERAGE'',
            Def ''serie0-tmp2'' ''/var/lib/rrd/host1/users.rrd'' ''value'' ''AVERAGE'',
            CDef ''serie0-orig'' ''serie0-tmp0,serie0-tmp2,+,3,/'',
            CDef ''serie0'' ''serie0-orig,2.000000,*'']"
    by (simp add: plan_group_def avg_with_absent_metric_def m digits rrdSetGraph_def
          Let_def numeral_2_eq_2 [symmetric])
  then have "\<exists>p. rrdGetData_plan example_handler avg_with_absent_metric [] True
         = Return (Inr p)
       \<and> take 4 (plan_graph p) =
           [Def ''serie0-tmp0'' ''/var/lib/rrd/host1/load.rrd'' ''value'' ''AVERAGE'',
            Def ''serie0-tmp2'' ''/var/lib/rrd/host1/users.rrd'' ''value'' ''AVERAGE'',
            CDef ''serie0-orig'' ''serie0-tmp0,serie0-tmp2,+,3,/'',
            CDef ''serie0'' ''serie0-orig,2.000000,*'']"
    by (auto simp: rrdGetData_plan_def avg_with_absent_metric_def)
  moreover have "length (filter (\<lambda>serie. Serie_Metric serie \<noteq> None)
      (Series avg_with_absent_metric)) = 2"
    "length (Series avg_with_absent_metric) = 3"
    by (simp_all add: avg_with_absent_metric_def)
  ultimately show ?thesis by blast
qed

section \<open>Parsing the print results\<close>

lemma count_list_tl_dropWhile:
  "c \<in> set s \<Longrightarrow> Suc (count_list (tl (dropWhile (\<lambda>x. x \<noteq> c) s)) c) = count_list s c"
  by (induction s) auto

lemma length_SplitN:
  "length (SplitN s c n) = min n (Suc (count_list s c))"
proof (induction s c n rule: SplitN.induct)
  case (1 s sep)
  show ?case by simp
next
  case (2 s sep)
  show ?case by simp
next
  case (3 s sep n)
  show ?case
  proof (cases "sep \<in> set s")
    case True
    with 3 count_list_tl_dropWhile [OF True] show ?thesis by simp
  next
    case False
    then have "count_list s sep = 0" by (simp add: count_list_0_iff)
    with False show ?thesis by simp
  qed
qed

lemma rrdParseInfo_Cons_defined:
  "2 \<le> count_list v (CHR '','') \<Longrightarrow>
     \<exists>data'. rrdParseInfo pf (v # rest) data = rrdParseInfo pf rest data'"
  by (simp add: Let_def length_SplitN) blast

lemma rrdParseInfo_Cons_panic:
  "count_list v (CHR '','') < 2 \<Longrightarrow>
     rrdParseInfo pf (v # rest) data = Panic ''index out of range''"
  by (simp add: Let_def length_SplitN)

lemma rrdParseInfo_Return_iff:
  "(\<exists>data'. rrdParseInfo pf info data = Return data')
     \<longleftrightarrow> (\<forall>v \<in> set info. 2 \<le> count_list v (CHR '',''))"
proof (induction info arbitrary: data)
  case Nil
  show ?case by simp
next
  case (Cons v rest)
  show ?case
  proof (cases "2 \<le> count_list v (CHR '','')")
    case True
    from rrdParseInfo_Cons_defined [OF True, of pf rest data]
    obtain d where "rrdParseInfo pf (v # rest) data = rrdParseInfo pf rest d" by blast
    with Cons [of d] True show ?thesis by simp
  next
    case False
    then have "count_list v (CHR '','') < 2" by simp
    then have "rrdParseInfo pf (v # rest) data = Panic ''index out of range''"
      by (rule rrdParseInfo_Cons_panic)
    with False show ?thesis by simp
  qed
qed

lemma rrdParseInfo_Panic_msg:
  "rrdParseInfo pf info data = Panic msg \<Longrightarrow> msg = ''index out of range''"
proof (induction info arbitrary: data)
  case Nil
  then show ?case by simp
next
  case (Cons v rest)
  show ?case
  proof (cases "2 \<le> count_list v (CHR '','')")
    case True
    from rrdParseInfo_Cons_defined [OF True, of pf rest data]
    obtain d where "rrdParseInfo pf (v # rest) data = rrdParseInfo pf rest d" by blast
    with Cons show ?thesis by simp
  next
    case False
    then have "count_list v (CHR '','') < 2" by simp
    then have "rrdParseInfo pf (v # rest) data = Panic ''index out of range''"
      by (rule rrdParseInfo_Cons_panic)
    with Cons.prems show ?thesis by simp
  qed
qed

text \<open>
  C10. \<open>rrdParseInfo\<close> returns exactly when every print entry has at least two
  commas, and it panics with an index out of range exactly when some entry has
  fewer: \<open>SplitN\<close> with count 3 gives at most three chunks, one more than the
  commas of the entry when those are fewer than two, and \<open>chunks[2]\<close> is read
  without a test of the length.
\<close>

theorem rrdParseInfo_total_iff_two_commas:
  "((\<exists>data'. rrdParseInfo pf info data = Return data')
      \<longleftrightarrow> (\<forall>v \<in> set info. 2 \<le> count_list v (CHR '','')))
   \<and> (rrdParseInfo pf info data = Panic ''index out of range''
      \<longleftrightarrow> (\<exists>v \<in> set info. count_list v (CHR '','') < 2))
   \<and> (\<forall>v. length (SplitN v (CHR '','') 3) = min 3 (Suc (count_list v (CHR '',''))))"
proof -
  have a: "(\<exists>data'. rrdParseInfo pf info data = Return data')
      \<longleftrightarrow> (\<forall>v \<in> set info. 2 \<le> count_list v (CHR '',''))"
    by (rule rrdParseInfo_Return_iff)
  have b: "rrdParseInfo pf info data = Panic ''index out of range''
      \<longleftrightarrow> (\<exists>v \<in> set info. count_list v (CHR '','') < 2)"
  proof (cases "rrdParseInfo pf info data")
    case (Panic msg)
    with rrdParseInfo_Panic_msg [OF Panic] a show ?thesis
      by (auto simp: not_le)
  next
    case (Return d)
    with a show ?thesis by (auto simp: not_le)
  qed
  show ?thesis using a b by (simp add: length_SplitN)
qed

theorem rrdParseInfo_total_iff_two_commas_witness:
  "count_list ''load,min,1.0'' (CHR '','') = 2 \<and> count_list ''load,max,nope'' (CHR '','') = 2
   \<and> (\<exists>data'. rrdParseInfo (ParseFloat example_engine)
                  [''load,min,1.0'', ''load,max,nope''] Map.empty = Return data')
   \<and> count_list ''load,max'' (CHR '','') = 1
   \<and> rrdParseInfo (ParseFloat example_engine) [''load,min,1.0'', ''load,max''] Map.empty
       = Panic ''index out of range''"
proof -
  have counts: "count_list ''load,min,1.0'' (CHR '','') = 2"
    "count_list ''load,max,nope'' (CHR '','') = 2" "count_list ''load,max'' (CHR '','') = 1"
    by simp_all
  then have good:
    "\<forall>v \<in> set [''load,min,1.0'', ''load,max,nope'']. 2 \<le> count_list v (CHR '','')"
    by simp
  from counts
  have bad: "\<exists>v \<in> set [''load,min,1.0'', ''load,max'']. count_list v (CHR '','') < 2"
    by simp
  from good rrdParseInfo_total_iff_two_commas
    [of "ParseFloat example_engine" "[''load,min,1.0'', ''load,max,nope'']" Map.empty]
  have 1: "\<exists>data'. rrdParseInfo (ParseFloat example_engine)
                  [''load,min,1.0'', ''load,max,nope''] Map.empty = Return data'"
    by blast
  from bad rrdParseInfo_total_iff_two_commas
    [of "ParseFloat example_engine" "[''load,min,1.0'', ''load,max'']" Map.empty]
  have 2: "rrdParseInfo (ParseFloat example_engine) [''load,min,1.0'', ''load,max'']
      Map.empty = Panic ''index out of range''"
    by blast
  from counts 1 2 show ?thesis by blast
qed

section \<open>Percentile labels\<close>
















section \<open>Discovery: the channel and the pattern\<close>

lemma register_datasets_chan_closed:
  "register_datasets source metric path dsNames (ms, ch) = Return (ms', ch')
     \<Longrightarrow> chan_closed ch' = chan_closed ch"
proof (induction dsNames arbitrary: ms ch)
  case Nil
  then show ?case by simp
next
  case (Cons dsName rest)
  from Cons.prems obtain table where
    "register_datasets source metric path rest
       (ms(source \<mapsto> table(metric @ ''/'' @ dsName \<mapsto> \<lparr>Dataset = dsName, FilePath = path\<rparr>)),
        ch\<lparr>chan_sent := chan_sent ch @ [(source, metric @ ''/'' @ dsName)]\<rparr>)
       = Return (ms', ch')"
    by (auto simp: Let_def split: if_splits option.splits)
  from Cons.IH [OF this] show ?case by simp
qed

lemma walkFunc_chan_closed:
  assumes "walkFunc world rootPath re entry st = Return (st', err)"
  shows "chan_closed (snd st') = chan_closed (snd st)"
proof -
  have r: "chan_closed (snd s') = chan_closed (snd s)"
    if "register_datasets source metric path dsNames s = Return s'"
    for source metric path dsNames s s'
    using that
      register_datasets_chan_closed
        [of source metric path dsNames "fst s" "snd s" "fst s'" "snd s'"]
    by simp
  have r': "chan_closed (snd s') = chan_closed ch"
    if "register_datasets source metric path dsNames (ms, ch) = Return s'"
    for source metric path dsNames ms ch s'
    using r [OF that] by simp
  from assms show ?thesis
    unfolding walkFunc_def Let_def
    by (auto split: option.splits if_splits sum.splits outcome.splits dest: r r')
qed

lemma WalkDir_chan_closed:
  assumes "WalkDir (walkFunc world rootPath re) entries st = Return (st', err)"
  shows "chan_closed (snd st') = chan_closed (snd st)"
  using assms
proof (induction entries arbitrary: st)
  case Nil
  then show ?case by simp
next
  case (Cons entry rest)
  from Cons.prems obtain st1 e1 where
    1: "walkFunc world rootPath re entry st = Return (st1, e1)"
    by (auto split: outcome.splits)
  note c = walkFunc_chan_closed [OF 1]
  show ?case
  proof (cases e1)
    case None
    with 1 Cons.prems have "WalkDir (walkFunc world rootPath re) rest st1 = Return (st', err)"
      by simp
    from Cons.IH [OF this] c show ?thesis by simp
  next
    case (Some e)
    with 1 Cons.prems have "st' = st1" by simp
    with c show ?thesis by simp
  qed
qed

text \<open>
  On every path of \<open>Update\<close> that returns an error, the channel is as closed as it
  was before the call; the one \<open>close\<close> is on the path that returns nil.
\<close>

lemma Update_error_leaves_channel:
  assumes "RRDConnectorHandler_Update world handler ch = Return (handler', ch', Some err)"
  shows "chan_closed ch' = chan_closed ch"
proof -
  have w: "chan_closed c' = chan_closed ch"
    if "WalkDir (walkFunc world (Path handler) re) (walk world (Path handler))
          (metrics handler, ch) = Return ((ms, c'), e)" for re ms c' e
    using WalkDir_chan_closed [OF that] by simp
  from assms show ?thesis
    unfolding RRDConnectorHandler_Update_def
    by (auto split: option.splits sum.splits if_splits outcome.splits prod.splits dest: w)
qed

lemma Update_success_closes_channel:
  assumes "RRDConnectorHandler_Update world handler ch = Return (handler', ch', None)"
  shows "chan_closed ch' \<and> \<not> chan_closed ch"
proof -
  have w: "chan_closed c' = chan_closed ch"
    if "WalkDir (walkFunc world (Path handler) re) (walk world (Path handler))
          (metrics handler, ch) = Return ((ms, c'), e)" for re ms c' e
    using WalkDir_chan_closed [OF that] by simp
  from assms show ?thesis
    unfolding RRDConnectorHandler_Update_def
    by (auto split: option.splits sum.splits if_splits outcome.splits prod.splits dest: w)
qed

text \<open>
  C3. A walk that registers one file and then meets an unreadable directory:
  \<open>Update\<close> returns the error of the walk, the pair of the file has been sent, and
  the channel is still open when \<open>Update\<close> returns. On the same tree without the
  unreadable directory \<open>Update\<close> returns nil and the channel is closed.
\<close>

theorem Update_returns_error_with_channel_open:
  "RRDConnectorHandler_Update world_unreadable (fresh_handler ''(?P<source>[^/]+)/(?P<metric>.+).rrd'')
       open_channel
     = Return
         (\<lparr>Path = ''/var/lib/rrd'', Pattern = ''(?P<source>[^/]+)/(?P<metric>.+).rrd'',
           metrics =
             [''host1'' \<mapsto>
                [''load/value'' \<mapsto>
                   \<lparr>Dataset = ''value'', FilePath = ''/var/lib/rrd/host1/load.rrd''\<rparr>]]\<rparr>,
          \<lparr>chan_sent = [(''host1'', ''load/value'')], chan_closed = False\<rparr>,
          Some (Error ''permission denied''))
   \<and> RRDConnectorHandler_Update world_readable (fresh_handler ''(?P<source>[^/]+)/(?P<metric>.+).rrd'')
       open_channel
     = Return
         (\<lparr>Path = ''/var/lib/rrd'', Pattern = ''(?P<source>[^/]+)/(?P<metric>.+).rrd'',
           metrics =
             [''host1'' \<mapsto>
                [''load/value'' \<mapsto>
                   \<lparr>Dataset = ''value'', FilePath = ''/var/lib/rrd/host1/load.rrd''\<rparr>]]\<rparr>,
          \<lparr>chan_sent = [(''host1'', ''load/value'')], chan_closed = True\<rparr>,
          None)"
  by (simp add: RRDConnectorHandler_Update_def world_unreadable_def world_readable_def
        fresh_handler_def open_channel_def source_metric_regexp_def walkFunc_def Let_def)

lemma pattern_keywords_Inl:
  "pattern_keywords names groups = Inl err \<Longrightarrow>
     \<exists>key \<in> set names. key \<noteq> [] \<and> key \<noteq> ''source'' \<and> key \<noteq> ''metric''
       \<and> err = Error (''invalid pattern keyword `'' @ key @ apostrophe)"
  by (induction names arbitrary: groups) (auto split: if_splits)

lemma pattern_keywords_Inr:
  "pattern_keywords names groups = Inr groups' \<Longrightarrow>
     (\<forall>key \<in> set names. key = [] \<or> key = ''source'' \<or> key = ''metric'')
     \<and> (\<forall>key. groups' key \<longleftrightarrow>
           groups key \<or> (key \<in> set names \<and> (key = ''source'' \<or> key = ''metric'')))"
proof (induction names arbitrary: groups)
  case Nil
  then show ?case by simp
next
  case (Cons key rest)
  show ?case
  proof (cases "key = []")
    case True
    with Cons.prems have "pattern_keywords rest groups = Inr groups'" by simp
    from Cons.IH [OF this] True show ?thesis by auto
  next
    case False
    with Cons.prems have k: "key = ''source'' \<or> key = ''metric''"
      and "pattern_keywords rest (groups(key := True)) = Inr groups'"
      by (auto split: if_splits)
    from Cons.IH [OF this(2)] k show ?thesis by auto
  qed
qed

text \<open>
  The part of the pattern check the source does as the spec says: a pattern that
  compiles and whose named groups are not exactly \<open>source\<close> and \<open>metric\<close> makes
  \<open>Update\<close> return an error that names the keyword, with the handler (so its table
  of metrics) and the channel as they were.
\<close>

lemma Update_rejects_other_keywords:
  assumes "Compile world (Pattern handler) = Some re"
    and "{key \<in> set (SubexpNames re). key \<noteq> []} \<noteq> {''source'', ''metric''}"
  shows "\<exists>err. RRDConnectorHandler_Update world handler ch = Return (handler, ch, Some err)
           \<and> (err = Error (''missing pattern keyword `source'' @ apostrophe)
              \<or> err = Error (''missing pattern keyword `metric'' @ apostrophe)
              \<or> (\<exists>key \<in> set (SubexpNames re).
                    key \<noteq> [] \<and> key \<noteq> ''source'' \<and> key \<noteq> ''metric''
                    \<and> err = Error (''invalid pattern keyword `'' @ key @ apostrophe)))"
proof (cases "pattern_keywords (SubexpNames re) (\<lambda>_. False)")
  case (Inl err)
  from pattern_keywords_Inl [OF Inl] Inl assms(1) show ?thesis
    by (auto simp: RRDConnectorHandler_Update_def)
next
  case (Inr groups)
  note g = pattern_keywords_Inr [OF Inr]
  have "\<not> (groups ''source'' \<and> groups ''metric'')"
  proof
    assume "groups ''source'' \<and> groups ''metric''"
    with g have "{key \<in> set (SubexpNames re). key \<noteq> []} = {''source'', ''metric''}"
      by auto
    with assms(2) show False by simp
  qed
  with Inr assms(1) show ?thesis
    by (auto simp: RRDConnectorHandler_Update_def)
qed

lemma Update_panics_on_bad_pattern:
  "Compile world (Pattern handler) = None \<Longrightarrow>
     \<exists>msg. RRDConnectorHandler_Update world handler ch = Panic msg"
  by (simp add: RRDConnectorHandler_Update_def)

text \<open>
  C4. A pattern that is not a regular expression: \<open>regexp.MustCompile\<close> panics, and
  \<open>Update\<close> returns no error value.
\<close>

theorem Update_panics_on_invalid_pattern:
  "RRDConnectorHandler_Update world_bad_pattern (fresh_handler ''(?P<source>'') open_channel
     = Panic ''regexp: Compile((?P<source>): error parsing regexp''"
  by (simp add: RRDConnectorHandler_Update_def world_bad_pattern_def fresh_handler_def)

end
